theory Spec2Isabelle
  imports Main "HOL-Library.AList" "HOL-Library.Sublist"
begin

section \<open>Python values\<close>

text \<open>
  A Python \<open>str\<close> is a sequence of Unicode code points, so it is modelled as a list of
  natural numbers; \<open>ustr\<close> turns an ASCII literal into such a list.
\<close>

type_synonym pystr = "nat list"

definition ustr :: "string \<Rightarrow> pystr" where
  "ustr s = map of_char s"

text \<open>
  A float read by \<open>json.loads\<close> is kept as the exact decimal of its literal
  (sign, coefficient, power of ten); the program only asks a float whether it is zero
  and what its \<open>repr\<close> is.
\<close>

datatype pyfloat = Decimal bool nat int | Infinity bool | NaN

text \<open>The values \<open>json.loads\<close> can return: None, bool, int, float, str, list, dict.\<close>

datatype json =
    JNull
  | JBool bool
  | JInt int
  | JFloat pyfloat
  | JStr pystr
  | JList "json list"
  | JDict "(pystr \<times> json) list"

text \<open>
  \<open>float(literal)\<close> is correctly rounded to binary64: a non-zero decimal becomes
  \<open>0.0\<close> exactly when its magnitude is at most \<open>2^-1075\<close>, half the smallest subnormal.
\<close>

definition float_nonzero :: "pyfloat \<Rightarrow> bool" where
  "float_nonzero f =
     (case f of
        Decimal _ m e \<Rightarrow>
          (if 0 \<le> e then m \<noteq> 0 else (10::int) ^ nat (- e) < int m * 2 ^ 1075)
      | Infinity _ \<Rightarrow> True
      | NaN \<Rightarrow> True)"

text \<open>Truth value testing, as \<open>or\<close> and \<open>if\<close> apply it.\<close>

fun py_truthy :: "json \<Rightarrow> bool" where
  "py_truthy JNull = False"
| "py_truthy (JBool b) = b"
| "py_truthy (JInt i) = (i \<noteq> 0)"
| "py_truthy (JFloat f) = float_nonzero f"
| "py_truthy (JStr s) = (s \<noteq> [])"
| "py_truthy (JList xs) = (xs \<noteq> [])"
| "py_truthy (JDict kvs) = (kvs \<noteq> [])"

text \<open>\<open>a or b\<close>: the first operand when it is truthy, else the second.\<close>

definition py_or :: "json \<Rightarrow> json \<Rightarrow> json" where
  "py_or a b = (if py_truthy a then a else b)"


section \<open>json.loads\<close>

text \<open>
  The decoder of the standard library (the C scanner, strict mode, no hooks). A result of
  \<open>None\<close> stands for a raised \<open>JSONDecodeError\<close>. Limits of the interpreter (recursion
  depth, the digit limit of \<open>int\<close>) are not modelled.
\<close>

definition json_ws :: "nat \<Rightarrow> bool" where
  "json_ws c = (c = 32 \<or> c = 9 \<or> c = 10 \<or> c = 13)"

definition skip_ws :: "pystr \<Rightarrow> pystr" where
  "skip_ws s = dropWhile json_ws s"

definition startswith :: "pystr \<Rightarrow> pystr \<Rightarrow> bool" where
  "startswith s p = (take (length p) s = p)"

definition expect :: "nat \<Rightarrow> pystr \<Rightarrow> pystr option" where
  "expect ch s = (case s of [] \<Rightarrow> None | c # cs \<Rightarrow> if c = ch then Some cs else None)"

definition is_digit :: "nat \<Rightarrow> bool" where
  "is_digit c = (48 \<le> c \<and> c \<le> 57)"

definition hex_val :: "nat \<Rightarrow> nat option" where
  "hex_val c =
     (if 48 \<le> c \<and> c \<le> 57 then Some (c - 48)
      else if 97 \<le> c \<and> c \<le> 102 then Some (c - 87)
      else if 65 \<le> c \<and> c \<le> 70 then Some (c - 55)
      else None)"

definition hex4 :: "pystr \<Rightarrow> nat option" where
  "hex4 s =
     (case s of
        a # b # c # d # _ \<Rightarrow>
          (case (hex_val a, hex_val b, hex_val c, hex_val d) of
             (Some w, Some x, Some y, Some z) \<Rightarrow> Some (((w * 16 + x) * 16 + y) * 16 + z)
           | _ \<Rightarrow> None)
      | _ \<Rightarrow> None)"

definition escape_char :: "nat \<Rightarrow> nat option" where
  "escape_char e =
     (if e = 34 then Some 34
      else if e = 92 then Some 92
      else if e = 47 then Some 47
      else if e = 98 then Some 8
      else if e = 102 then Some 12
      else if e = 110 then Some 10
      else if e = 114 then Some 13
      else if e = 116 then Some 9
      else None)"

definition push_char :: "nat \<Rightarrow> (pystr \<times> pystr) option \<Rightarrow> (pystr \<times> pystr) option" where
  "push_char c r = (case r of None \<Rightarrow> None | Some (t, rest) \<Rightarrow> Some (c # t, rest))"

text \<open>
  \<open>scanstring\<close> starts after the opening quote and returns the decoded string and the
  input after the closing quote. A high surrogate escape followed by a low surrogate
  escape is joined into one code point.
\<close>

fun scanstring :: "pystr \<Rightarrow> (pystr \<times> pystr) option" where
  "scanstring [] = None"
| "scanstring (c # cs) =
     (if c = 34 then Some ([], cs)
      else if c = 92 then
        (case cs of
           [] \<Rightarrow> None
         | e # es \<Rightarrow>
             if e = 117 then
               (case hex4 es of
                  None \<Rightarrow> None
                | Some u1 \<Rightarrow>
                    if 55296 \<le> u1 \<and> u1 \<le> 56319 \<and> startswith (drop 4 es) [92, 117] then
                      (case hex4 (drop 6 es) of
                         None \<Rightarrow> None
                       | Some u2 \<Rightarrow>
                           if 56320 \<le> u2 \<and> u2 \<le> 57343
                           then push_char (65536 + (u1 - 55296) * 1024 + (u2 - 56320))
                                  (scanstring (drop 10 es))
                           else push_char u1 (scanstring (drop 4 es)))
                    else push_char u1 (scanstring (drop 4 es)))
             else
               (case escape_char e of
                  None \<Rightarrow> None
                | Some ch \<Rightarrow> push_char ch (scanstring es)))
      else if c < 32 then None
      else push_char c (scanstring cs))"

definition digits_val :: "pystr \<Rightarrow> nat" where
  "digits_val ds = foldl (\<lambda>acc d. acc * 10 + (d - 48)) 0 ds"

text \<open>The exponent part: \<open>[eE][-+]?[0-9]+\<close>, not consumed when no digit follows.\<close>

definition match_exponent :: "pystr \<Rightarrow> int option \<times> pystr" where
  "match_exponent s =
     (case s of
        [] \<Rightarrow> (None, s)
      | c # cs \<Rightarrow>
          if c = 101 \<or> c = 69 then
            (let neg = startswith cs [45];
                 ds = (if startswith cs [45] \<or> startswith cs [43] then tl cs else cs)
             in if takeWhile is_digit ds = [] then (None, s)
                else (Some ((if neg then - 1 else 1) * int (digits_val (takeWhile is_digit ds))),
                      dropWhile is_digit ds))
          else (None, s))"

definition match_fraction :: "pystr \<Rightarrow> pystr \<times> pystr" where
  "match_fraction s =
     (case s of
        p # q # qs \<Rightarrow>
          if p = 46 \<and> is_digit q
          then (takeWhile is_digit (q # qs), dropWhile is_digit (q # qs))
          else ([], s)
      | _ \<Rightarrow> ([], s))"

definition match_number :: "pystr \<Rightarrow> (json \<times> pystr) option" where
  "match_number s =
     (let neg = startswith s [45];
          s1 = (if neg then tl s else s)
      in case s1 of
           [] \<Rightarrow> None
         | d # ds \<Rightarrow>
             if \<not> is_digit d then None
             else
               (let ip = (if d = 48 then [d] else d # takeWhile is_digit ds);
                    s2 = (if d = 48 then ds else dropWhile is_digit ds);
                    (fp, s3) = match_fraction s2;
                    (ex, s4) = match_exponent s3
                in if fp = [] \<and> ex = None
                   then Some (JInt ((if neg then - 1 else 1) * int (digits_val ip)), s4)
                   else Some (JFloat (Decimal neg (digits_val (ip @ fp))
                                        ((case ex of None \<Rightarrow> 0 | Some x \<Rightarrow> x) - int (length fp))),
                              s4)))"

text \<open>
  The scanner. Its first argument bounds the number of nested calls; \<open>json_loads\<close>
  starts it with more than any text of that length needs.
\<close>

fun scan_once :: "nat \<Rightarrow> pystr \<Rightarrow> (json \<times> pystr) option"
  and parse_array :: "nat \<Rightarrow> pystr \<Rightarrow> json list \<Rightarrow> (json \<times> pystr) option"
  and parse_object :: "nat \<Rightarrow> pystr \<Rightarrow> (pystr \<times> json) list \<Rightarrow> (json \<times> pystr) option"
where
  "scan_once 0 s = None"
| "scan_once (Suc n) s =
     (case s of
        [] \<Rightarrow> None
      | c # cs \<Rightarrow>
          if c = 34 then
            (case scanstring cs of None \<Rightarrow> None | Some (t, r) \<Rightarrow> Some (JStr t, r))
          else if c = 123 then
            (if startswith (skip_ws cs) [125] then Some (JDict [], tl (skip_ws cs))
             else parse_object n (skip_ws cs) [])
          else if c = 91 then
            (if startswith (skip_ws cs) [93] then Some (JList [], tl (skip_ws cs))
             else parse_array n (skip_ws cs) [])
          else if startswith s (ustr ''null'') then Some (JNull, drop 4 s)
          else if startswith s (ustr ''true'') then Some (JBool True, drop 4 s)
          else if startswith s (ustr ''false'') then Some (JBool False, drop 5 s)
          else if startswith s (ustr ''NaN'') then Some (JFloat NaN, drop 3 s)
          else if startswith s (ustr ''Infinity'') then Some (JFloat (Infinity False), drop 8 s)
          else if startswith s (ustr ''-Infinity'') then Some (JFloat (Infinity True), drop 9 s)
          else match_number s)"
| "parse_array 0 s acc = None"
| "parse_array (Suc n) s acc =
     (case scan_once n s of
        None \<Rightarrow> None
      | Some (v, r) \<Rightarrow>
          if startswith (skip_ws r) [93] then Some (JList (acc @ [v]), tl (skip_ws r))
          else
            (case expect 44 (skip_ws r) of
               None \<Rightarrow> None
             | Some r' \<Rightarrow> parse_array n (skip_ws r') (acc @ [v])))"
| "parse_object 0 s acc = None"
| "parse_object (Suc n) s acc =
     (case expect 34 s of
        None \<Rightarrow> None
      | Some ks \<Rightarrow>
          (case scanstring ks of
             None \<Rightarrow> None
           | Some (key, r1) \<Rightarrow>
               (case expect 58 (skip_ws r1) of
                  None \<Rightarrow> None
                | Some r2 \<Rightarrow>
                    (case scan_once n (skip_ws r2) of
                       None \<Rightarrow> None
                     | Some (v, r3) \<Rightarrow>
                         if startswith (skip_ws r3) [125]
                         then Some (JDict (AList.update key v acc), tl (skip_ws r3))
                         else
                           (case expect 44 (skip_ws r3) of
                              None \<Rightarrow> None
                            | Some r4 \<Rightarrow>
                                parse_object n (skip_ws r4) (AList.update key v acc))))))"

definition json_loads :: "pystr \<Rightarrow> json option" where
  "json_loads s =
     (if startswith s [65279] then None
      else
        (case scan_once (2 * length s + 2) (skip_ws s) of
           None \<Rightarrow> None
         | Some (v, r) \<Rightarrow> if skip_ws r = [] then Some v else None))"


section \<open>str, repr and the string methods the script uses\<close>

text \<open>
  What the interpreter supplies and the script cannot see into: the \<open>repr\<close> of a float and
  the Unicode table behind \<open>str.isprintable\<close> (consulted for non-ASCII code points only).
\<close>

record interp =
  float_repr :: "pyfloat \<Rightarrow> pystr"
  isprintable :: "nat \<Rightarrow> bool"

fun dec_digits :: "nat \<Rightarrow> pystr" where
  "dec_digits n = (if n < 10 then [48 + n] else dec_digits (n div 10) @ [48 + n mod 10])"

definition int_repr :: "int \<Rightarrow> pystr" where
  "int_repr i = (if i < 0 then 45 # dec_digits (nat (- i)) else dec_digits (nat i))"

definition hex_digit :: "nat \<Rightarrow> nat" where
  "hex_digit d = (if d < 10 then 48 + d else 87 + d)"

definition hex_fixed :: "nat \<Rightarrow> nat \<Rightarrow> pystr" where
  "hex_fixed w n = map (\<lambda>i. hex_digit ((n div 16 ^ i) mod 16)) (rev [0..<w])"

definition repr_char :: "interp \<Rightarrow> nat \<Rightarrow> nat \<Rightarrow> pystr" where
  "repr_char ip quote ch =
     (if ch = quote \<or> ch = 92 then [92, ch]
      else if ch = 9 then [92, 116]
      else if ch = 10 then [92, 110]
      else if ch = 13 then [92, 114]
      else if ch < 32 \<or> ch = 127 then [92, 120] @ hex_fixed 2 ch
      else if ch < 127 then [ch]
      else if isprintable ip ch then [ch]
      else if ch \<le> 255 then [92, 120] @ hex_fixed 2 ch
      else if ch \<le> 65535 then [92, 117] @ hex_fixed 4 ch
      else [92, 85] @ hex_fixed 8 ch)"

definition str_repr :: "interp \<Rightarrow> pystr \<Rightarrow> pystr" where
  "str_repr ip s =
     (let quote = (if 39 \<in> set s \<and> 34 \<notin> set s then 34 else 39)
      in [quote] @ concat (map (repr_char ip quote) s) @ [quote])"

fun join :: "pystr \<Rightarrow> pystr list \<Rightarrow> pystr" where
  "join sep [] = []"
| "join sep [x] = x"
| "join sep (x # y # ys) = x @ sep @ join sep (y # ys)"

primrec py_repr :: "interp \<Rightarrow> json \<Rightarrow> pystr" where
  "py_repr ip JNull = ustr ''None''"
| "py_repr ip (JBool b) = (if b then ustr ''True'' else ustr ''False'')"
| "py_repr ip (JInt i) = int_repr i"
| "py_repr ip (JFloat f) = float_repr ip f"
| "py_repr ip (JStr s) = str_repr ip s"
| "py_repr ip (JList xs) = [91] @ join (ustr '', '') (map (py_repr ip) xs) @ [93]"
| "py_repr ip (JDict kvs) =
     [123] @ join (ustr '', '')
               (map (\<lambda>kv. str_repr ip (fst kv) @ ustr '': '' @ snd kv)
                    (map (map_prod id (py_repr ip)) kvs)) @ [125]"

text \<open>\<open>str(x)\<close>, which is what a replacement field of an f-string inserts.\<close>

definition py_str :: "interp \<Rightarrow> json \<Rightarrow> pystr" where
  "py_str ip v = (case v of JStr s \<Rightarrow> s | _ \<Rightarrow> py_repr ip v)"

text \<open>\<open>str.isspace\<close> of one code point, and \<open>str.strip()\<close>.\<close>

definition py_isspace :: "nat \<Rightarrow> bool" where
  "py_isspace c =
     ((9 \<le> c \<and> c \<le> 13) \<or> (28 \<le> c \<and> c \<le> 32) \<or> c = 133 \<or> c = 160 \<or> c = 5760
      \<or> (8192 \<le> c \<and> c \<le> 8202) \<or> c = 8232 \<or> c = 8233 \<or> c = 8239 \<or> c = 8287
      \<or> c = 12288)"

definition py_strip :: "pystr \<Rightarrow> pystr" where
  "py_strip s = rev (dropWhile py_isspace (rev (dropWhile py_isspace s)))"


section \<open>textwrap.dedent\<close>

text \<open>
  The regular-expression implementation of the standard library: lines made of spaces
  and tabs only are emptied, the margin is the longest run of spaces and tabs that starts
  every remaining non-empty line, and a non-empty margin is cut from the start of every line.
\<close>

primrec split_nl :: "pystr \<Rightarrow> pystr list" where
  "split_nl [] = [[]]"
| "split_nl (c # cs) =
     (if c = 10 then [] # split_nl cs
      else (c # hd (split_nl cs)) # tl (split_nl cs))"

definition is_blank :: "nat \<Rightarrow> bool" where
  "is_blank c = (c = 32 \<or> c = 9)"

definition blank_line :: "pystr \<Rightarrow> pystr" where
  "blank_line l = (if list_all is_blank l then [] else l)"

definition margin_step :: "pystr option \<Rightarrow> pystr \<Rightarrow> pystr option" where
  "margin_step margin indent =
     (case margin of
        None \<Rightarrow> Some indent
      | Some m \<Rightarrow>
          if startswith indent m then Some m
          else if startswith m indent then Some indent
          else
            (let k = length (takeWhile (\<lambda>(x, y). x = y) (zip m indent))
             in if k < length (zip m indent) then Some (take k m) else Some m))"

definition cut_margin :: "pystr \<Rightarrow> pystr \<Rightarrow> pystr" where
  "cut_margin m l = (if startswith l m then drop (length m) l else l)"

definition dedent :: "pystr \<Rightarrow> pystr" where
  "dedent text =
     (let lines = map blank_line (split_nl text);
          indents = map (takeWhile is_blank) (filter (\<lambda>l. l \<noteq> []) lines)
      in case foldl margin_step None indents of
           None \<Rightarrow> join [10] lines
         | Some m \<Rightarrow> if m = [] then join [10] lines else join [10] (map (cut_margin m) lines))"


section \<open>Exceptions\<close>

text \<open>
  The exceptions that can arise in the script. \<open>SystemExit\<close> derives from
  \<open>BaseException\<close> only; the others derive from \<open>Exception\<close>, so
  \<open>except Exception\<close> catches them and lets \<open>SystemExit\<close> pass.
\<close>

datatype exn =
    SystemExit nat
  | AttributeError
  | JSONDecodeError
  | HTTPError nat
  | ConnectionError
  | Timeout
  | RequestException
  | UnicodeEncodeError

definition is_Exception :: "exn \<Rightarrow> bool" where
  "is_Exception e = (case e of SystemExit _ \<Rightarrow> False | _ \<Rightarrow> True)"

text \<open>\<open>d.get(key, default)\<close>: only a dict has the method.\<close>

definition py_get :: "json \<Rightarrow> pystr \<Rightarrow> json \<Rightarrow> exn + json" where
  "py_get d key dflt =
     (case d of
        JDict kvs \<Rightarrow> (case map_of kvs key of None \<Rightarrow> Inr dflt | Some v \<Rightarrow> Inr v)
      | _ \<Rightarrow> Inl AttributeError)"

text \<open>\<open>x.strip()\<close>: only a str has the method.\<close>

definition strip_method :: "json \<Rightarrow> exn + pystr" where
  "strip_method x = (case x of JStr s \<Rightarrow> Inr (py_strip s) | _ \<Rightarrow> Inl AttributeError)"


section \<open>The script: configuration and build_prompt\<close>

record config =
  OLLAMA_API_URL :: pystr
  OLLAMA_MODEL :: pystr

definition environ_get :: "(pystr \<rightharpoonup> pystr) \<Rightarrow> pystr \<Rightarrow> pystr \<Rightarrow> pystr" where
  "environ_get env name dflt = (case env name of None \<Rightarrow> dflt | Some v \<Rightarrow> v)"

definition load_config :: "(pystr \<rightharpoonup> pystr) \<Rightarrow> config" where
  "load_config env =
     \<lparr>OLLAMA_API_URL =
        environ_get env (ustr ''OLLAMA_API_URL'') (ustr ''http://localhost:11434/api/generate''),
      OLLAMA_MODEL = environ_get env (ustr ''OLLAMA_MODEL'') (ustr ''llama3'')\<rparr>"

text \<open>The f-string of \<open>build_prompt\<close>, line by line, with its three replacement fields.\<close>

definition prompt_template :: "pystr \<Rightarrow> pystr \<Rightarrow> pystr \<Rightarrow> pystr" where
  \<open>prompt_template cpu memory services = join [10]
     [[],
      ustr ''        You are the CustomOS Guardian, a concise monitoring assistant.'',
      [],
      ustr ''        Your job:'',
      ustr ''          - Look at CPU, memory, and service status.'',
      ustr ''          - Respond with ONE or two short sentences.'',
      ustr ''          - If everything looks fine, say "All systems green."'',
      ustr ''          - If any problem is detected, mention it explicitly'',
      ustr ''            (e.g., "Issue detected in Plex service").'',
      [],
      ustr ''        Data (JSON):'',
      ustr ''        CPU load: '' @ cpu,
      ustr ''        Memory: '' @ memory,
      ustr ''        Services: '' @ services,
      [],
      ustr ''        Respond with a short human-friendly verdict only, no JSON, no extra explanation.'',
      ustr ''        '']\<close>

definition build_prompt :: "interp \<Rightarrow> json \<Rightarrow> exn + pystr" where
  "build_prompt ip metrics =
     (case py_get metrics (ustr ''services'') (JDict []) of
        Inl e \<Rightarrow> Inl e
      | Inr services \<Rightarrow>
          (case py_get metrics (ustr ''memory'') (JDict []) of
             Inl e \<Rightarrow> Inl e
           | Inr memory \<Rightarrow>
               (case py_get metrics (ustr ''cpu_load'') (JDict []) of
                  Inl e \<Rightarrow> Inl e
                | Inr cpu \<Rightarrow>
                    Inr (py_strip (dedent
                      (prompt_template (py_str ip cpu) (py_str ip memory) (py_str ip services)))))))"


section \<open>The script: call_ollama\<close>

text \<open>
  One request as \<open>requests.post(url, json=..., timeout=...)\<close> receives it, and what the
  HTTP layer can answer: an exception of the \<open>requests\<close> library, or a response with a
  status code and a body.
\<close>

record http_request =
  req_url :: pystr
  req_json :: json
  req_timeout :: nat

datatype http_failure = ConnectionRefused | TimedOut | OtherFailure

datatype http_outcome = Failed http_failure | Response nat pystr

definition failure_exn :: "http_failure \<Rightarrow> exn" where
  "failure_exn f =
     (case f of ConnectionRefused \<Rightarrow> ConnectionError | TimedOut \<Rightarrow> Timeout
      | OtherFailure \<Rightarrow> RequestException)"

text \<open>The state the script changes: what it wrote to stdout and the requests it sent.\<close>

record world =
  stdout :: pystr
  sent :: "http_request list"

definition requests_post ::
  "(http_request \<Rightarrow> http_outcome) \<Rightarrow> pystr \<Rightarrow> json \<Rightarrow> nat \<Rightarrow> world \<Rightarrow> http_outcome \<times> world" where
  "requests_post net url body timeout w =
     (let rq = \<lparr>req_url = url, req_json = body, req_timeout = timeout\<rparr>
      in (net rq, w\<lparr>sent := sent w @ [rq]\<rparr>))"

text \<open>\<open>resp.raise_for_status()\<close> raises for the 4xx and 5xx codes.\<close>

definition raise_for_status :: "nat \<Rightarrow> exn + unit" where
  "raise_for_status status = (if 400 \<le> status \<and> status < 600 then Inl (HTTPError status) else Inr ())"

definition resp_json :: "pystr \<Rightarrow> exn + json" where
  "resp_json body = (case json_loads body of None \<Rightarrow> Inl JSONDecodeError | Some v \<Rightarrow> Inr v)"

text \<open>\<open>data.get("response") or data.get("text") or ""\<close>, the second lookup made only when
  the first value is falsy.\<close>

definition extract_text :: "json \<Rightarrow> exn + json" where
  "extract_text data =
     (case py_get data (ustr ''response'') JNull of
        Inl e \<Rightarrow> Inl e
      | Inr a \<Rightarrow>
          if py_truthy a then Inr a
          else
            (case py_get data (ustr ''text'') JNull of
               Inl e \<Rightarrow> Inl e
             | Inr b \<Rightarrow> Inr (py_or b (JStr []))))"

text \<open>The body of the \<open>try\<close> statement of \<open>call_ollama\<close>.\<close>

definition call_ollama_try ::
  "(http_request \<Rightarrow> http_outcome) \<Rightarrow> config \<Rightarrow> pystr \<Rightarrow> world \<Rightarrow> (exn + pystr) \<times> world" where
  "call_ollama_try net cfg prompt w =
     (let (resp, w') =
            requests_post net (OLLAMA_API_URL cfg)
              (JDict [(ustr ''model'', JStr (OLLAMA_MODEL cfg)),
                      (ustr ''prompt'', JStr prompt),
                      (ustr ''stream'', JBool False)])
              15 w
      in case resp of
           Failed f \<Rightarrow> (Inl (failure_exn f), w')
         | Response status body \<Rightarrow>
             (case raise_for_status status of
                Inl e \<Rightarrow> (Inl e, w')
              | Inr _ \<Rightarrow>
                  (case resp_json body of
                     Inl e \<Rightarrow> (Inl e, w')
                   | Inr data \<Rightarrow>
                       (case extract_text data of
                          Inl e \<Rightarrow> (Inl e, w')
                        | Inr text \<Rightarrow> (strip_method text, w')))))"

definition call_ollama ::
  "(http_request \<Rightarrow> http_outcome) \<Rightarrow> config \<Rightarrow> pystr \<Rightarrow> world \<Rightarrow> (exn + pystr) \<times> world" where
  "call_ollama net cfg prompt w =
     (case call_ollama_try net cfg prompt w of
        (Inl e, w') \<Rightarrow> if is_Exception e then (Inr [], w') else (Inl e, w')
      | (Inr v, w') \<Rightarrow> (Inr v, w'))"


section \<open>The script: main and the process\<close>

text \<open>
  What the process runs in: the environment variables, whether \<open>import requests\<close>
  succeeds, how the network answers a request, the interpreter, and which code points
  the encoding of \<open>sys.stdout\<close> can represent (that depends on the locale and on
  \<open>PYTHONIOENCODING\<close>).
\<close>

record runtime =
  environ :: "pystr \<rightharpoonup> pystr"
  has_requests :: bool
  network :: "http_request \<Rightarrow> http_outcome"
  interpreter :: interp
  stdout_encodes :: "nat \<Rightarrow> bool"

text \<open>
  \<open>sys.stdout.write(s)\<close> encodes the whole of \<open>s\<close> first, and raises
  \<open>UnicodeEncodeError\<close>, having written nothing, when \<open>s\<close> holds a code point the
  encoding cannot represent. Stdout is taken to be open and writable.
\<close>

definition stdout_write :: "(nat \<Rightarrow> bool) \<Rightarrow> pystr \<Rightarrow> world \<Rightarrow> (exn + unit) \<times> world" where
  "stdout_write enc s w =
     (if list_all enc s then (Inr (), w\<lparr>stdout := stdout w @ s\<rparr>)
      else (Inl UnicodeEncodeError, w))"

text \<open>\<open>print(s)\<close> writes \<open>s\<close> and then the newline.\<close>

definition print :: "(nat \<Rightarrow> bool) \<Rightarrow> pystr \<Rightarrow> world \<Rightarrow> (exn + unit) \<times> world" where
  "print enc s w =
     (case stdout_write enc s w of
        (Inl e, w') \<Rightarrow> (Inl e, w')
      | (Inr _, w') \<Rightarrow> stdout_write enc [10] w')"

definition main :: "runtime \<Rightarrow> config \<Rightarrow> pystr \<Rightarrow> world \<Rightarrow> (exn + unit) \<times> world" where
  "main rt cfg raw w =
     (case json_loads (if raw \<noteq> [] then raw else ustr ''{}'') of
        None \<Rightarrow> (Inl (SystemExit 0), w)
      | Some metrics \<Rightarrow>
          (case build_prompt (interpreter rt) metrics of
             Inl e \<Rightarrow> (Inl e, w)
           | Inr prompt \<Rightarrow>
               (case call_ollama (network rt) cfg prompt w of
                  (Inl e, w') \<Rightarrow> (Inl e, w')
                | (Inr verdict, w') \<Rightarrow>
                    if verdict \<noteq> [] then print (stdout_encodes rt) verdict w'
                    else (Inr (), w'))))"

text \<open>The module run as a script, from the guarded import to the call of \<open>main\<close>.\<close>

definition script :: "runtime \<Rightarrow> pystr \<Rightarrow> (exn + unit) \<times> world" where
  "script rt raw =
     (let w0 = \<lparr>stdout = [], sent = []\<rparr>
      in if \<not> has_requests rt then (Inl (SystemExit 0), w0)
         else main rt (load_config (environ rt)) raw w0)"

text \<open>
  What the caller of the process observes: the exit status (0 after a normal end, the
  argument of \<open>sys.exit\<close>, 1 after an uncaught exception, which also puts a traceback on
  stderr), the text written to stdout, and the requests that went out.
\<close>

record outcome =
  exit_code :: nat
  printed :: pystr
  traceback :: "exn option"
  requests_sent :: "http_request list"

definition run :: "runtime \<Rightarrow> pystr \<Rightarrow> outcome" where
  "run rt raw =
     (case script rt raw of
        (Inr _, w) \<Rightarrow>
          \<lparr>exit_code = 0, printed = stdout w, traceback = None, requests_sent = sent w\<rparr>
      | (Inl (SystemExit c), w) \<Rightarrow>
          \<lparr>exit_code = c, printed = stdout w, traceback = None, requests_sent = sent w\<rparr>
      | (Inl e, w) \<Rightarrow>
          \<lparr>exit_code = 1, printed = stdout w, traceback = Some e, requests_sent = sent w\<rparr>)"


text \<open>UTF-8, the usual encoding of stdout, represents every code point but the surrogates.\<close>

definition utf8 :: "nat \<Rightarrow> bool" where
  "utf8 c = (\<not> (55296 \<le> c \<and> c \<le> 57343))"

text \<open>A runtime for concrete runs: no environment variables set, \<open>requests\<close> installed,
  an endpoint that answers every request with status 200 and the given body, and stdout
  encoded in UTF-8.\<close>

definition example_interp :: interp where
  "example_interp = \<lparr>float_repr = (\<lambda>f. ustr ''0.0''), isprintable = (\<lambda>c. True)\<rparr>"

definition example_runtime :: "pystr \<Rightarrow> runtime" where
  "example_runtime body =
     \<lparr>environ = Map.empty, has_requests = True,
      network = (\<lambda>rq. Response 200 body), interpreter = example_interp,
      stdout_encodes = utf8\<rparr>"

text \<open>
  Two response bodies whose \<open>response\<close> field is written with a JSON escape for a lone
  surrogate: \<open>{"response": "\ud800"}\<close> and \<open>{"response": "\ud83d"}\<close> (the first half of
  an emoji). Code point 92 is the backslash.
\<close>

definition surrogate_body :: pystr where
  "surrogate_body = ustr ''{\"response\": \"'' @ [92] @ ustr ''ud800\"}''"

definition half_emoji_body :: pystr where
  "half_emoji_body = ustr ''{\"response\": \"'' @ [92] @ ustr ''ud83d\"}''"

text \<open>The one request \<open>call_ollama\<close> sends for a prompt.\<close>

definition the_request :: "config \<Rightarrow> pystr \<Rightarrow> http_request" where
  "the_request cfg prompt =
     \<lparr>req_url = OLLAMA_API_URL cfg,
      req_json = JDict [(ustr ''model'', JStr (OLLAMA_MODEL cfg)),
                        (ustr ''prompt'', JStr prompt),
                        (ustr ''stream'', JBool False)],
      req_timeout = 15\<rparr>"


section \<open>Evaluating json.loads on concrete texts\<close>

lemmas scan_once_numeral = scan_once.simps(2)[of "pred_numeral k" for k, folded numeral_eq_Suc]
lemmas parse_array_numeral = parse_array.simps(2)[of "pred_numeral k" for k, folded numeral_eq_Suc]
lemmas parse_object_numeral = parse_object.simps(2)[of "pred_numeral k" for k, folded numeral_eq_Suc]

lemmas json_eval = ustr_def json_loads_def skip_ws_def json_ws_def startswith_def expect_def
  push_char_def scan_once_numeral parse_array_numeral parse_object_numeral
  match_number_def match_fraction_def match_exponent_def is_digit_def digits_val_def
  hex4_def hex_val_def escape_char_def Let_def


lemma loads_empty: "json_loads [] = None"
  by (simp add: json_eval)

lemma loads_braces: "json_loads (ustr ''{}'') = Some (JDict [])"
  by (simp add: json_eval)

lemma loads_brackets: "json_loads (ustr ''[]'') = Some (JList [])"
  by (simp add: json_eval)

lemma loads_green:
  "json_loads (ustr ''{\"response\": \"All systems green.\"}'') =
     Some (JDict [(ustr ''response'', JStr (ustr ''All systems green.''))])"
  by (simp add: json_eval)

lemma loads_padded:
  "json_loads (ustr ''{\"response\": \"  padded text  \"}'') =
     Some (JDict [(ustr ''response'', JStr (ustr ''  padded text  ''))])"
  by (simp add: json_eval)

lemma loads_fallback:
  "json_loads (ustr ''{\"response\": \"\", \"text\": \"hi\"}'') =
     Some (JDict [(ustr ''response'', JStr []), (ustr ''text'', JStr (ustr ''hi''))])"
  by (simp add: json_eval)

lemma loads_blank_text:
  "json_loads (ustr ''{\"response\": \"\", \"text\": \" \"}'') =
     Some (JDict [(ustr ''response'', JStr []), (ustr ''text'', JStr (ustr '' ''))])"
  by (simp add: json_eval)

lemma loads_done:
  "json_loads (ustr ''{\"done\": true}'') = Some (JDict [(ustr ''done'', JBool True)])"
  by (simp add: json_eval)

lemma loads_null_response:
  "json_loads (ustr ''{\"response\": null, \"text\": \"hi\"}'') =
     Some (JDict [(ustr ''response'', JNull), (ustr ''text'', JStr (ustr ''hi''))])"
  by (simp add: json_eval)

lemma loads_surrogate:
  "json_loads surrogate_body = Some (JDict [(ustr ''response'', JStr [55296])])"
  by (simp add: surrogate_body_def json_eval)

lemma loads_half_emoji:
  "json_loads half_emoji_body = Some (JDict [(ustr ''response'', JStr [55357])])"
  by (simp add: half_emoji_body_def json_eval)

section \<open>call_ollama never raises and sends one request\<close>

lemma call_ollama_try_world:
  "snd (call_ollama_try net cfg prompt w) = w\<lparr>sent := sent w @ [the_request cfg prompt]\<rparr>"
  by (simp add: call_ollama_try_def requests_post_def the_request_def Let_def
      split: http_outcome.splits sum.splits)

lemma call_ollama_world:
  "snd (call_ollama net cfg prompt w) = w\<lparr>sent := sent w @ [the_request cfg prompt]\<rparr>"
proof -
  obtain r w' where t: "call_ollama_try net cfg prompt w = (r, w')"
    by (cases "call_ollama_try net cfg prompt w")
  then have "w' = w\<lparr>sent := sent w @ [the_request cfg prompt]\<rparr>"
    using call_ollama_try_world [of net cfg prompt w] by simp
  then show ?thesis
    using t by (simp add: call_ollama_def split: sum.splits)
qed

lemma strip_method_exn: "strip_method x = Inl e \<Longrightarrow> is_Exception e"
  by (auto simp: strip_method_def is_Exception_def split: json.splits)

lemma py_get_exn: "py_get d k v = Inl e \<Longrightarrow> is_Exception e"
  by (auto simp: py_get_def is_Exception_def split: json.splits option.splits)

lemma extract_text_exn: "extract_text d = Inl e \<Longrightarrow> is_Exception e"
  by (auto simp: extract_text_def split: sum.splits if_splits dest: py_get_exn)

lemma call_ollama_try_exn:
  "fst (call_ollama_try net cfg prompt w) = Inl e \<Longrightarrow> is_Exception e"
  by (auto simp: call_ollama_try_def requests_post_def Let_def raise_for_status_def
      resp_json_def failure_exn_def is_Exception_def
      split: http_outcome.splits sum.splits if_splits option.splits http_failure.splits
      dest: extract_text_exn strip_method_exn)

lemma call_ollama_returns: "\<exists>v. fst (call_ollama net cfg prompt w) = Inr v"
proof (cases "call_ollama_try net cfg prompt w")
  case (Pair r w')
  show ?thesis
  proof (cases r)
    case (Inl e)
    with Pair have "is_Exception e"
      using call_ollama_try_exn [of net cfg prompt w e] by simp
    with Pair Inl show ?thesis by (simp add: call_ollama_def)
  next
    case (Inr v)
    with Pair show ?thesis by (simp add: call_ollama_def)
  qed
qed


lemma call_ollama_passes:
  "fst (call_ollama_try net cfg prompt w) = Inr v \<Longrightarrow> fst (call_ollama net cfg prompt w) = Inr v"
  by (cases "call_ollama_try net cfg prompt w") (simp add: call_ollama_def)


section \<open>Runs of the script\<close>

lemma build_prompt_dict: "\<exists>p. build_prompt ip (JDict kvs) = Inr p"
  by (simp add: build_prompt_def py_get_def split: option.splits)

lemma build_prompt_not_dict:
  "\<forall>kvs. v \<noteq> JDict kvs \<Longrightarrow> build_prompt ip v = Inl AttributeError"
  by (cases v) (simp_all add: build_prompt_def py_get_def)



lemma run_not_dict:
  "has_requests rt \<Longrightarrow> json_loads (if raw \<noteq> [] then raw else ustr ''{}'') = Some v \<Longrightarrow>
   \<forall>kvs. v \<noteq> JDict kvs \<Longrightarrow>
   run rt raw =
     \<lparr>exit_code = 1, printed = [], traceback = Some AttributeError, requests_sent = []\<rparr>"
  by (simp add: run_def script_def main_def build_prompt_not_dict)

lemma run_dict:
  assumes "has_requests rt"
    and "json_loads (if raw \<noteq> [] then raw else ustr ''{}'') = Some (JDict kvs)"
    and "build_prompt (interpreter rt) (JDict kvs) = Inr p"
    and "fst (call_ollama (network rt) (load_config (environ rt)) p
           \<lparr>stdout = [], sent = []\<rparr>) = Inr v"
  shows "run rt raw =
     \<lparr>exit_code = (if v = [] \<or> list_all (stdout_encodes rt) (v @ [10]) then 0 else 1),
      printed = (if v = [] \<or> \<not> list_all (stdout_encodes rt) v then []
                 else if stdout_encodes rt 10 then v @ [10] else v),
      traceback = (if v = [] \<or> list_all (stdout_encodes rt) (v @ [10]) then None
                   else Some UnicodeEncodeError),
      requests_sent = [the_request (load_config (environ rt)) p]\<rparr>"
proof -
  let ?w0 = "\<lparr>stdout = [], sent = []\<rparr>"
  let ?cfg = "load_config (environ rt)"
  have "snd (call_ollama (network rt) ?cfg p ?w0) =
        ?w0\<lparr>sent := sent ?w0 @ [the_request ?cfg p]\<rparr>"
    by (rule call_ollama_world)
  with assms(4) have c: "call_ollama (network rt) ?cfg p ?w0 =
        (Inr v, \<lparr>stdout = [], sent = [the_request ?cfg p]\<rparr>)"
    by (cases "call_ollama (network rt) ?cfg p ?w0") simp
  show ?thesis
    using assms(1-3) c
    by (simp add: run_def script_def main_def print_def stdout_write_def)
qed



text \<open>
  C9: \<open>call_ollama\<close> sends exactly one request: a POST to the configured URL, with the
  JSON body \<open>{model: configured model, prompt: the prompt, stream: false}\<close> and a timeout of
  15 seconds. The URL and the model are the environment variables \<open>OLLAMA_API_URL\<close> and
  \<open>OLLAMA_MODEL\<close>, with the defaults \<open>http://localhost:11434/api/generate\<close> and
  \<open>llama3\<close>. A run whose stdin holds a JSON object sends this one request and no other,
  the prompt being the one \<open>build_prompt\<close> made.
\<close>

theorem call_ollama_posts_once:
  "sent (snd (call_ollama net cfg prompt w)) =
     sent w @ [\<lparr>req_url = OLLAMA_API_URL cfg,
                req_json = JDict [(ustr ''model'', JStr (OLLAMA_MODEL cfg)),
                                  (ustr ''prompt'', JStr prompt),
                                  (ustr ''stream'', JBool False)],
                req_timeout = 15\<rparr>]
   \<and> OLLAMA_API_URL (load_config env) =
       (case env (ustr ''OLLAMA_API_URL'') of
          None \<Rightarrow> ustr ''http://localhost:11434/api/generate'' | Some u \<Rightarrow> u)
   \<and> OLLAMA_MODEL (load_config env) =
       (case env (ustr ''OLLAMA_MODEL'') of None \<Rightarrow> ustr ''llama3'' | Some m \<Rightarrow> m)
   \<and> (has_requests rt \<and>
        json_loads (if raw \<noteq> [] then raw else ustr ''{}'') = Some (JDict kvs) \<longrightarrow>
        (\<exists>p. build_prompt (interpreter rt) (JDict kvs) = Inr p \<and>
             requests_sent (run rt raw) =
               [\<lparr>req_url = OLLAMA_API_URL (load_config (environ rt)),
                 req_json = JDict [(ustr ''model'', JStr (OLLAMA_MODEL (load_config (environ rt)))),
                                   (ustr ''prompt'', JStr p),
                                   (ustr ''stream'', JBool False)],
                 req_timeout = 15\<rparr>]))"
proof (intro conjI impI)
  show "sent (snd (call_ollama net cfg prompt w)) =
     sent w @ [\<lparr>req_url = OLLAMA_API_URL cfg,
                req_json = JDict [(ustr ''model'', JStr (OLLAMA_MODEL cfg)),
                                  (ustr ''prompt'', JStr prompt),
                                  (ustr ''stream'', JBool False)],
                req_timeout = 15\<rparr>]"
    by (simp add: call_ollama_world the_request_def)
next
  show "OLLAMA_API_URL (load_config env) =
       (case env (ustr ''OLLAMA_API_URL'') of
          None \<Rightarrow> ustr ''http://localhost:11434/api/generate'' | Some u \<Rightarrow> u)"
    by (simp add: load_config_def environ_get_def)
next
  show "OLLAMA_MODEL (load_config env) =
       (case env (ustr ''OLLAMA_MODEL'') of None \<Rightarrow> ustr ''llama3'' | Some m \<Rightarrow> m)"
    by (simp add: load_config_def environ_get_def)
next
  assume a: "has_requests rt \<and>
        json_loads (if raw \<noteq> [] then raw else ustr ''{}'') = Some (JDict kvs)"
  obtain p where p: "build_prompt (interpreter rt) (JDict kvs) = Inr p"
    using build_prompt_dict by blast
  obtain v where v: "fst (call_ollama (network rt) (load_config (environ rt)) p
           \<lparr>stdout = [], sent = []\<rparr>) = Inr v"
    using call_ollama_returns by blast
  have "requests_sent (run rt raw) = [the_request (load_config (environ rt)) p]"
    using run_dict [OF _ _ p v] a by simp
  with p show "\<exists>p. build_prompt (interpreter rt) (JDict kvs) = Inr p \<and>
             requests_sent (run rt raw) =
               [\<lparr>req_url = OLLAMA_API_URL (load_config (environ rt)),
                 req_json = JDict [(ustr ''model'', JStr (OLLAMA_MODEL (load_config (environ rt)))),
                                   (ustr ''prompt'', JStr p),
                                   (ustr ''stream'', JBool False)],
                 req_timeout = 15\<rparr>]"
    by (auto simp: the_request_def)
qed

theorem call_ollama_posts_once_witness:
  "\<exists>p. build_prompt example_interp (JDict []) = Inr p \<and>
       requests_sent (run (example_runtime []) []) =
         [\<lparr>req_url = ustr ''http://localhost:11434/api/generate'',
           req_json = JDict [(ustr ''model'', JStr (ustr ''llama3'')),
                             (ustr ''prompt'', JStr p),
                             (ustr ''stream'', JBool False)],
           req_timeout = 15\<rparr>]"
  using call_ollama_posts_once [of "\<lambda>rq. Response 200 []" "load_config Map.empty" "[]"
      "\<lparr>stdout = [], sent = []\<rparr>" Map.empty "example_runtime []" "[]" "[]"]
  by (auto simp: example_runtime_def loads_braces load_config_def environ_get_def)

text \<open>
  C8: on empty stdin the program does what it does on the input \<open>{}\<close>: with the same
  environment and the same endpoint, the two runs have the same exit status, the same
  output, and send the same requests.
\<close>

theorem empty_stdin_as_braces: "run rt [] = run rt (ustr ''{}'')"
proof -
  have "ustr ''{}'' \<noteq> []" by (simp add: ustr_def)
  then have m: "main rt cfg [] w = main rt cfg (ustr ''{}'') w" for cfg w
    by (simp add: main_def)
  have "script rt [] = script rt (ustr ''{}'')"
    unfolding script_def m ..
  then show ?thesis
    unfolding run_def by (rule arg_cong)
qed

text \<open>
  C1: the claim is that the process ends with exit status 0 on every path. The code does
  not do that. \<open>print(verdict)\<close> stands outside every \<open>try\<close> statement, so when the
  endpoint answers with a text that holds a code point the encoding of stdout cannot
  represent (for UTF-8 a lone surrogate, which a JSON body carries as the escape
  \<open>\ud800\<close>), \<open>print\<close> raises \<open>UnicodeEncodeError\<close> and nothing catches it: the process ends
  with a traceback and exit status 1, having printed nothing.
\<close>

theorem unencodable_verdict_crashes:
  assumes "has_requests rt"
    and "json_loads (if raw \<noteq> [] then raw else ustr ''{}'') = Some (JDict kvs)"
    and "\<forall>rq. network rt rq = Response 200 body"
    and "json_loads body = Some (JDict d)"
    and "map_of d (ustr ''response'') = Some (JStr s)"
    and "\<not> list_all (stdout_encodes rt) (py_strip s)"
  shows "exit_code (run rt raw) = 1 \<and> printed (run rt raw) = []
       \<and> traceback (run rt raw) = Some UnicodeEncodeError"
proof -
  from assms(6) have n: "py_strip s \<noteq> []" by auto
  then have "s \<noteq> []" by (auto simp: py_strip_def)
  then have e: "extract_text (JDict d) = Inr (JStr s)"
    using assms(5) by (simp add: extract_text_def py_get_def)
  obtain p where p: "build_prompt (interpreter rt) (JDict kvs) = Inr p"
    using build_prompt_dict by blast
  have "fst (call_ollama_try (network rt) (load_config (environ rt)) p
          \<lparr>stdout = [], sent = []\<rparr>) = Inr (py_strip s)"
    using assms(3,4) e
    by (simp add: call_ollama_try_def requests_post_def Let_def raise_for_status_def
        resp_json_def strip_method_def)
  then have v: "fst (call_ollama (network rt) (load_config (environ rt)) p
          \<lparr>stdout = [], sent = []\<rparr>) = Inr (py_strip s)"
    by (rule call_ollama_passes)
  show ?thesis
    using run_dict [OF assms(1) assms(2) p v] n assms(6) by simp
qed

theorem unencodable_verdict_crashes_witness:
  "exit_code (run (example_runtime surrogate_body) (ustr ''{}'')) = 1
   \<and> printed (run (example_runtime surrogate_body) (ustr ''{}'')) = []
   \<and> traceback (run (example_runtime surrogate_body) (ustr ''{}'')) = Some UnicodeEncodeError"
proof -
  have s: "py_strip [55296] = [55296]" by (simp add: py_strip_def py_isspace_def)
  show ?thesis
    using unencodable_verdict_crashes
        [where rt = "example_runtime surrogate_body" and raw = "ustr ''{}''" and kvs = "[]"
          and body = surrogate_body and d = "[(ustr ''response'', JStr [55296])]"
          and s = "[55296]"]
    by (simp add: example_runtime_def loads_braces loads_surrogate s utf8_def)
qed

text \<open>
  C2: the claim is that stdin holding valid JSON that is not an object ends the program
  with exit status 0 and no output. The code does not do that: \<open>json.loads\<close> succeeds, so
  the \<open>except\<close> clause of \<open>main\<close> is not entered, and \<open>build_prompt\<close> calls \<open>.get\<close> on a
  value that is not a dict. The \<open>AttributeError\<close> is caught nowhere: the process ends with
  a traceback and exit status 1, having printed nothing and sent no request.
\<close>

theorem non_object_stdin_crashes:
  "has_requests rt \<Longrightarrow> json_loads raw = Some v \<Longrightarrow> \<forall>kvs. v \<noteq> JDict kvs \<Longrightarrow>
   run rt raw =
     \<lparr>exit_code = 1, printed = [], traceback = Some AttributeError, requests_sent = []\<rparr>"
proof -
  assume h: "has_requests rt" and l: "json_loads raw = Some v" and n: "\<forall>kvs. v \<noteq> JDict kvs"
  from l have "raw \<noteq> []" using loads_empty by auto
  with l have "json_loads (if raw \<noteq> [] then raw else ustr ''{}'') = Some v" by simp
  from run_not_dict [OF h this n] show ?thesis .
qed

theorem non_object_stdin_crashes_witness:
  "run (example_runtime []) (ustr ''[]'') =
     \<lparr>exit_code = 1, printed = [], traceback = Some AttributeError, requests_sent = []\<rparr>"
  using non_object_stdin_crashes [of "example_runtime []" "ustr ''[]''" "JList []"]
  by (simp add: example_runtime_def loads_brackets)




section \<open>What call_ollama returns for a response\<close>

lemma loads_text:
  "json_loads (ustr ''{\"text\": \"hi\"}'') = Some (JDict [(ustr ''text'', JStr (ustr ''hi''))])"
  by (simp add: json_eval)

lemma extract_text_response:
  "map_of d (ustr ''response'') = Some a \<Longrightarrow> py_truthy a \<Longrightarrow> extract_text (JDict d) = Inr a"
  by (simp add: extract_text_def py_get_def)

lemma extract_text_falsy:
  "map_of d (ustr ''response'') = Some a \<Longrightarrow> \<not> py_truthy a \<Longrightarrow>
   map_of d (ustr ''text'') = Some (JStr t) \<Longrightarrow> extract_text (JDict d) = Inr (JStr t)"
  by (simp add: extract_text_def py_get_def py_or_def)

lemma extract_text_absent:
  "map_of d (ustr ''response'') = None \<Longrightarrow>
   map_of d (ustr ''text'') = Some (JStr t) \<Longrightarrow> extract_text (JDict d) = Inr (JStr t)"
  by (simp add: extract_text_def py_get_def py_or_def)

lemma extract_text_neither:
  "map_of d (ustr ''response'') = None \<Longrightarrow> map_of d (ustr ''text'') = None \<Longrightarrow>
   extract_text (JDict d) = Inr (JStr [])"
  by (simp add: extract_text_def py_get_def py_or_def)

lemma call_ollama_response:
  assumes "net (the_request cfg prompt) = Response 200 body"
    and "json_loads body = Some data"
    and "extract_text data = Inr (JStr s)"
  shows "fst (call_ollama net cfg prompt w) = Inr (py_strip s)"
proof -
  have "fst (call_ollama_try net cfg prompt w) = Inr (py_strip s)"
    using assms
    by (simp add: call_ollama_try_def requests_post_def the_request_def Let_def
        raise_for_status_def resp_json_def strip_method_def)
  then show ?thesis by (rule call_ollama_passes)
qed

lemma run_response:
  assumes "has_requests rt"
    and "json_loads (if raw \<noteq> [] then raw else ustr ''{}'') = Some (JDict kvs)"
    and "\<forall>rq. network rt rq = Response 200 body"
    and "json_loads body = Some data"
    and "extract_text data = Inr (JStr s)"
  shows "exit_code (run rt raw) =
           (if py_strip s = [] \<or> list_all (stdout_encodes rt) (py_strip s @ [10]) then 0 else 1)
    \<and> printed (run rt raw) =
           (if py_strip s = [] \<or> \<not> list_all (stdout_encodes rt) (py_strip s) then []
            else if stdout_encodes rt 10 then py_strip s @ [10] else py_strip s)"
proof -
  obtain p where p: "build_prompt (interpreter rt) (JDict kvs) = Inr p"
    using build_prompt_dict by blast
  have "network rt (the_request (load_config (environ rt)) p) = Response 200 body"
    using assms(3) by simp
  from call_ollama_response [where net = "network rt", OF this assms(4) assms(5)]
  have v: "fst (call_ollama (network rt) (load_config (environ rt)) p
      \<lparr>stdout = [], sent = []\<rparr>) = Inr (py_strip s)" .
  show ?thesis
    using run_dict [OF assms(1) assms(2) p v] by simp
qed

lemma strip_green: "py_strip (ustr ''All systems green.'') = ustr ''All systems green.''"
  by (simp add: py_strip_def py_isspace_def ustr_def)

lemma strip_padded: "py_strip (ustr ''  padded text  '') = ustr ''padded text''"
  by (simp add: py_strip_def py_isspace_def ustr_def)

lemma strip_hi: "py_strip (ustr ''hi'') = ustr ''hi''"
  by (simp add: py_strip_def py_isspace_def ustr_def)

lemma strip_blank: "py_strip (ustr '' '') = []"
  by (simp add: py_strip_def py_isspace_def ustr_def)

lemma example_runtime_simps:
  "has_requests (example_runtime body)"
  "network (example_runtime body) rq = Response 200 body"
  "environ (example_runtime body) = Map.empty"
  "interpreter (example_runtime body) = example_interp"
  "stdout_encodes (example_runtime body) = utf8"
  by (simp_all add: example_runtime_def)

lemma utf8_ascii:
  "list_all utf8 (ustr ''All systems green.'' @ [10])"
  "list_all utf8 (ustr ''padded text'' @ [10])"
  "list_all utf8 (ustr ''hi'' @ [10])"
  "list_all utf8 (ustr ''hi'')"
  "utf8 10"
  by (simp_all add: utf8_def ustr_def)

lemma stdin_braces:
  "json_loads (if ustr ''{}'' \<noteq> [] then ustr ''{}'' else ustr ''{}'') = Some (JDict [])"
  by (simp add: loads_braces)

text \<open>
  C5, as stated, fails for a string that stdout cannot encode: with stdout in UTF-8 and
  the body \<open>{"response": "\ud83d"}\<close>, whose \<open>response\<close> field is the string of one lone
  surrogate (the first half of an emoji), the stripped string is not empty, yet the
  program prints nothing and ends with status 1.
\<close>

theorem half_emoji_is_not_printed:
  "json_loads half_emoji_body = Some (JDict [(ustr ''response'', JStr [55357])])
   \<and> py_strip [55357] \<noteq> []
   \<and> printed (run (example_runtime half_emoji_body) (ustr ''{}'')) = []
   \<and> exit_code (run (example_runtime half_emoji_body) (ustr ''{}'')) = 1"
proof -
  have s: "py_strip [55357] = [55357]" by (simp add: py_strip_def py_isspace_def)
  have e: "extract_text (JDict [(ustr ''response'', JStr [55357])]) = Inr (JStr [55357])"
    by (simp add: extract_text_def py_get_def)
  show ?thesis
    using run_response [where rt = "example_runtime half_emoji_body" and raw = "ustr ''{}''"
        and kvs = "[]", OF _ _ _ loads_half_emoji e]
    by (simp add: example_runtime_simps loads_braces loads_half_emoji s utf8_def)
qed

text \<open>
  C5, amended: when stdin holds a JSON object and the endpoint answers with status 200 and
  a JSON object whose \<open>response\<close> field is the string \<open>s\<close>, and \<open>s\<close> stripped of surrounding
  whitespace is not empty and stdout can encode it and the newline, the program prints
  exactly the stripped \<open>s\<close> followed by one newline, and ends with status 0. So, with
  stdout in UTF-8, the body \<open>{"response": "All systems green."}\<close> prints
  \<open>All systems green.\<close> and the body \<open>{"response": "  padded text  "}\<close> prints
  \<open>padded text\<close>.
\<close>

theorem response_is_printed_stripped:
  assumes "has_requests rt"
    and "json_loads (if raw \<noteq> [] then raw else ustr ''{}'') = Some (JDict kvs)"
    and "\<forall>rq. network rt rq = Response 200 body"
    and "json_loads body = Some (JDict d)"
    and "map_of d (ustr ''response'') = Some (JStr s)"
    and "py_strip s \<noteq> []"
    and "list_all (stdout_encodes rt) (py_strip s @ [10])"
  shows "printed (run rt raw) = py_strip s @ [10] \<and> exit_code (run rt raw) = 0"
proof -
  from assms(6) have "s \<noteq> []" by (auto simp: py_strip_def)
  then have "extract_text (JDict d) = Inr (JStr s)"
    using assms(5) by (simp add: extract_text_response)
  from run_response [OF assms(1) assms(2) assms(3) assms(4) this] assms(6,7)
  show ?thesis by simp
qed

theorem response_is_printed_stripped_witness:
  "printed (run (example_runtime (ustr ''{\"response\": \"All systems green.\"}'')) (ustr ''{}''))
     = ustr ''All systems green.'' @ [10]
   \<and> printed (run (example_runtime (ustr ''{\"response\": \"  padded text  \"}'')) (ustr ''{}''))
     = ustr ''padded text'' @ [10]"
proof -
  have k: "ustr ''All systems green.'' \<noteq> []" "ustr ''padded text'' \<noteq> []"
    by (simp_all add: ustr_def)
  show ?thesis
    using k utf8_ascii
      response_is_printed_stripped
        [where rt = "example_runtime (ustr ''{\"response\": \"All systems green.\"}'')"
          and raw = "ustr ''{}''" and kvs = "[]"
          and body = "ustr ''{\"response\": \"All systems green.\"}''"
          and d = "[(ustr ''response'', JStr (ustr ''All systems green.''))]"
          and s = "ustr ''All systems green.''"]
      response_is_printed_stripped
        [where rt = "example_runtime (ustr ''{\"response\": \"  padded text  \"}'')"
          and raw = "ustr ''{}''" and kvs = "[]"
          and body = "ustr ''{\"response\": \"  padded text  \"}''"
          and d = "[(ustr ''response'', JStr (ustr ''  padded text  ''))]"
          and s = "ustr ''  padded text  ''"]
    by (simp add: example_runtime_simps loads_braces loads_green loads_padded
        strip_green strip_padded)
qed

text \<open>
  C6, as stated, fails when the value under \<open>response\<close> is falsy: for the body
  \<open>{"response": "", "text": "hi"}\<close> both keys are present, yet \<open>call_ollama\<close> returns the
  value under \<open>text\<close>, and the program prints it.
\<close>

theorem falsy_response_is_not_used:
  "json_loads (ustr ''{\"response\": \"\", \"text\": \"hi\"}'') =
     Some (JDict [(ustr ''response'', JStr []), (ustr ''text'', JStr (ustr ''hi''))])
   \<and> fst (call_ollama (\<lambda>rq. Response 200 (ustr ''{\"response\": \"\", \"text\": \"hi\"}''))
          (load_config Map.empty) [] \<lparr>stdout = [], sent = []\<rparr>) = Inr (ustr ''hi'')
   \<and> printed (run (example_runtime (ustr ''{\"response\": \"\", \"text\": \"hi\"}'')) (ustr ''{}''))
       = ustr ''hi'' @ [10]"
proof -
  let ?d = "[(ustr ''response'', JStr []), (ustr ''text'', JStr (ustr ''hi''))]"
  have r: "ustr ''response'' \<noteq> ustr ''text''" by (simp add: ustr_def)
  have e: "extract_text (JDict ?d) = Inr (JStr (ustr ''hi''))"
    using r by (simp add: extract_text_def py_get_def py_or_def)
  have "fst (call_ollama (\<lambda>rq. Response 200 (ustr ''{\"response\": \"\", \"text\": \"hi\"}''))
          (load_config Map.empty) [] \<lparr>stdout = [], sent = []\<rparr>) = Inr (py_strip (ustr ''hi''))"
    by (rule call_ollama_response [where net = "\<lambda>rq. Response 200 (ustr ''{\"response\": \"\", \"text\": \"hi\"}'')",
          OF _ loads_fallback e]) simp
  moreover have "printed (run (example_runtime (ustr ''{\"response\": \"\", \"text\": \"hi\"}''))
      (ustr ''{}'')) = (if py_strip (ustr ''hi'') = [] \<or> \<not> list_all utf8 (py_strip (ustr ''hi'')) then []
        else if utf8 10 then py_strip (ustr ''hi'') @ [10] else py_strip (ustr ''hi''))"
    using run_response [where rt = "example_runtime (ustr ''{\"response\": \"\", \"text\": \"hi\"}'')"
        and raw = "ustr ''{}''" and kvs = "[]", OF _ _ _ loads_fallback e]
    by (simp add: example_runtime_simps loads_braces)
  moreover have "ustr ''hi'' \<noteq> []" by (simp add: ustr_def)
  ultimately show ?thesis by (simp add: strip_hi loads_fallback utf8_ascii)
qed

text \<open>
  C6, amended: the text of a response with status 200 and a JSON object as body is taken
  from the key \<open>response\<close> and then from the key \<open>text\<close>. When the value under \<open>response\<close>
  is a non-empty string, \<open>call_ollama\<close> returns that string stripped, whatever \<open>text\<close>
  holds. When \<open>response\<close> is absent or its value is falsy, and \<open>text\<close> holds a string,
  \<open>call_ollama\<close> returns that string stripped. When neither key is present it returns the
  empty string, and a run against such an endpoint prints nothing.
\<close>

theorem response_then_text:
  assumes "net (the_request cfg prompt) = Response 200 body"
    and "json_loads body = Some (JDict d)"
  shows "(map_of d (ustr ''response'') = Some (JStr s) \<and> s \<noteq> [] \<longrightarrow>
            fst (call_ollama net cfg prompt w) = Inr (py_strip s))
       \<and> ((map_of d (ustr ''response'') = None
             \<or> (\<exists>a. map_of d (ustr ''response'') = Some a \<and> \<not> py_truthy a))
            \<and> map_of d (ustr ''text'') = Some (JStr t) \<longrightarrow>
            fst (call_ollama net cfg prompt w) = Inr (py_strip t))
       \<and> (map_of d (ustr ''response'') = None \<and> map_of d (ustr ''text'') = None \<longrightarrow>
            fst (call_ollama net cfg prompt w) = Inr []
            \<and> (has_requests rt
                 \<and> json_loads (if raw \<noteq> [] then raw else ustr ''{}'') = Some (JDict kvs)
                 \<and> (\<forall>rq. network rt rq = Response 200 body) \<longrightarrow>
               printed (run rt raw) = []))"
proof (intro conjI impI)
  assume "map_of d (ustr ''response'') = Some (JStr s) \<and> s \<noteq> []"
  then have "extract_text (JDict d) = Inr (JStr s)"
    by (simp add: extract_text_response)
  from call_ollama_response [where net = net, OF assms this]
  show "fst (call_ollama net cfg prompt w) = Inr (py_strip s)" .
next
  assume a: "(map_of d (ustr ''response'') = None
       \<or> (\<exists>a. map_of d (ustr ''response'') = Some a \<and> \<not> py_truthy a))
      \<and> map_of d (ustr ''text'') = Some (JStr t)"
  then have "extract_text (JDict d) = Inr (JStr t)"
    by (auto simp: extract_text_absent extract_text_falsy)
  from call_ollama_response [where net = net, OF assms this]
  show "fst (call_ollama net cfg prompt w) = Inr (py_strip t)" .
next
  assume "map_of d (ustr ''response'') = None \<and> map_of d (ustr ''text'') = None"
  then have "extract_text (JDict d) = Inr (JStr [])"
    by (simp add: extract_text_neither)
  from call_ollama_response [where net = net, OF assms this]
  show "fst (call_ollama net cfg prompt w) = Inr []" by (simp add: py_strip_def)
next
  assume n: "map_of d (ustr ''response'') = None \<and> map_of d (ustr ''text'') = None"
    and r: "has_requests rt
      \<and> json_loads (if raw \<noteq> [] then raw else ustr ''{}'') = Some (JDict kvs)
      \<and> (\<forall>rq. network rt rq = Response 200 body)"
  from n have e: "extract_text (JDict d) = Inr (JStr [])"
    by (simp add: extract_text_neither)
  from r have r1: "has_requests rt"
    and r2: "json_loads (if raw \<noteq> [] then raw else ustr ''{}'') = Some (JDict kvs)"
    and r3: "\<forall>rq. network rt rq = Response 200 body" by simp_all
  from run_response [OF r1 r2 r3 assms(2) e]
  show "printed (run rt raw) = []" by (simp add: py_strip_def)
qed

theorem response_then_text_witness:
  "fst (call_ollama (\<lambda>rq. Response 200 (ustr ''{\"response\": \"All systems green.\"}''))
      (load_config Map.empty) [] \<lparr>stdout = [], sent = []\<rparr>) = Inr (ustr ''All systems green.'')
   \<and> fst (call_ollama (\<lambda>rq. Response 200 (ustr ''{\"text\": \"hi\"}''))
      (load_config Map.empty) [] \<lparr>stdout = [], sent = []\<rparr>) = Inr (ustr ''hi'')
   \<and> fst (call_ollama (\<lambda>rq. Response 200 (ustr ''{\"response\": null, \"text\": \"hi\"}''))
      (load_config Map.empty) [] \<lparr>stdout = [], sent = []\<rparr>) = Inr (ustr ''hi'')
   \<and> fst (call_ollama (\<lambda>rq. Response 200 (ustr ''{\"done\": true}''))
      (load_config Map.empty) [] \<lparr>stdout = [], sent = []\<rparr>) = Inr []
   \<and> printed (run (example_runtime (ustr ''{\"done\": true}'')) (ustr ''{}'')) = []"
proof -
  have k: "ustr ''response'' \<noteq> ustr ''text''" "ustr ''done'' \<noteq> ustr ''response''"
    "ustr ''done'' \<noteq> ustr ''text''" "ustr ''All systems green.'' \<noteq> []"
    by (simp_all add: ustr_def)
  show ?thesis
    using k
      response_then_text
        [where net = "\<lambda>rq. Response 200 (ustr ''{\"response\": \"All systems green.\"}'')"
          and body = "ustr ''{\"response\": \"All systems green.\"}''"
          and d = "[(ustr ''response'', JStr (ustr ''All systems green.''))]"
          and s = "ustr ''All systems green.''" and cfg = "load_config Map.empty"
          and prompt = "[]" and w = "\<lparr>stdout = [], sent = []\<rparr>"]
      response_then_text
        [where net = "\<lambda>rq. Response 200 (ustr ''{\"text\": \"hi\"}'')"
          and body = "ustr ''{\"text\": \"hi\"}''"
          and d = "[(ustr ''text'', JStr (ustr ''hi''))]"
          and t = "ustr ''hi''" and cfg = "load_config Map.empty"
          and prompt = "[]" and w = "\<lparr>stdout = [], sent = []\<rparr>"]
      response_then_text
        [where net = "\<lambda>rq. Response 200 (ustr ''{\"response\": null, \"text\": \"hi\"}'')"
          and body = "ustr ''{\"response\": null, \"text\": \"hi\"}''"
          and d = "[(ustr ''response'', JNull), (ustr ''text'', JStr (ustr ''hi''))]"
          and t = "ustr ''hi''" and cfg = "load_config Map.empty"
          and prompt = "[]" and w = "\<lparr>stdout = [], sent = []\<rparr>"]
      response_then_text
        [where net = "\<lambda>rq. Response 200 (ustr ''{\"done\": true}'')"
          and body = "ustr ''{\"done\": true}''"
          and d = "[(ustr ''done'', JBool True)]"
          and cfg = "load_config Map.empty"
          and prompt = "[]" and w = "\<lparr>stdout = [], sent = []\<rparr>"
          and rt = "example_runtime (ustr ''{\"done\": true}'')"
          and raw = "ustr ''{}''" and kvs = "[]"]
    by (simp add: strip_green strip_hi example_runtime_simps loads_braces loads_green
        loads_text loads_null_response loads_done)
qed

text \<open>
  C10, as stated, fails when the string under \<open>text\<close> is not empty but holds only
  whitespace: for the body \<open>{"response": "", "text": " "}\<close> the value under \<open>response\<close> is
  falsy and the value under \<open>text\<close> is a non-empty string, \<open>call_ollama\<close> returns it
  stripped, which is the empty string, and the program prints nothing.
\<close>

theorem blank_text_is_not_printed:
  "json_loads (ustr ''{\"response\": \"\", \"text\": \" \"}'') =
     Some (JDict [(ustr ''response'', JStr []), (ustr ''text'', JStr (ustr '' ''))])
   \<and> ustr '' '' \<noteq> []
   \<and> fst (call_ollama (\<lambda>rq. Response 200 (ustr ''{\"response\": \"\", \"text\": \" \"}''))
          (load_config Map.empty) [] \<lparr>stdout = [], sent = []\<rparr>) = Inr []
   \<and> printed (run (example_runtime (ustr ''{\"response\": \"\", \"text\": \" \"}'')) (ustr ''{}''))
       = []"
proof -
  let ?d = "[(ustr ''response'', JStr []), (ustr ''text'', JStr (ustr '' ''))]"
  have r: "ustr ''response'' \<noteq> ustr ''text''" by (simp add: ustr_def)
  have e: "extract_text (JDict ?d) = Inr (JStr (ustr '' ''))"
    using r by (simp add: extract_text_def py_get_def py_or_def)
  have "fst (call_ollama (\<lambda>rq. Response 200 (ustr ''{\"response\": \"\", \"text\": \" \"}''))
          (load_config Map.empty) [] \<lparr>stdout = [], sent = []\<rparr>) = Inr (py_strip (ustr '' ''))"
    by (rule call_ollama_response [where net = "\<lambda>rq. Response 200 (ustr ''{\"response\": \"\", \"text\": \" \"}'')",
          OF _ loads_blank_text e]) simp
  moreover have "printed (run (example_runtime (ustr ''{\"response\": \"\", \"text\": \" \"}''))
      (ustr ''{}'')) = (if py_strip (ustr '' '') = [] \<or> \<not> list_all utf8 (py_strip (ustr '' '')) then []
        else if utf8 10 then py_strip (ustr '' '') @ [10] else py_strip (ustr '' ''))"
    using run_response [where rt = "example_runtime (ustr ''{\"response\": \"\", \"text\": \" \"}'')"
        and raw = "ustr ''{}''" and kvs = "[]", OF _ _ _ loads_blank_text e]
    by (simp add: example_runtime_simps loads_braces)
  moreover have "ustr '' '' \<noteq> []" by (simp add: ustr_def)
  ultimately show ?thesis by (simp add: strip_blank loads_blank_text)
qed

text \<open>
  C10, amended: the fallback is on falsiness, not only on absence. The empty string,
  \<open>None\<close> and \<open>0\<close> are falsy; and when the body of a response with status 200 is a JSON
  object that maps \<open>response\<close> to a falsy value and \<open>text\<close> to a string \<open>s\<close>, \<open>call_ollama\<close>
  returns \<open>s\<close> stripped of surrounding whitespace, and the program prints it, followed by a
  newline, when the stripped value is not empty and stdout can encode it and the newline.
\<close>

theorem fallback_on_falsy_response:
  assumes "has_requests rt"
    and "json_loads (if raw \<noteq> [] then raw else ustr ''{}'') = Some (JDict kvs)"
    and "\<forall>rq. network rt rq = Response 200 body"
    and "json_loads body = Some (JDict d)"
    and "map_of d (ustr ''response'') = Some a"
    and "\<not> py_truthy a"
    and "map_of d (ustr ''text'') = Some (JStr s)"
  shows "\<not> py_truthy (JStr []) \<and> \<not> py_truthy JNull \<and> \<not> py_truthy (JInt 0)
       \<and> fst (call_ollama (network rt) cfg prompt w) = Inr (py_strip s)
       \<and> (py_strip s \<noteq> [] \<and> list_all (stdout_encodes rt) (py_strip s @ [10]) \<longrightarrow>
            printed (run rt raw) = py_strip s @ [10])"
proof -
  have e: "extract_text (JDict d) = Inr (JStr s)"
    using assms(5-7) by (rule extract_text_falsy)
  have "network rt (the_request cfg prompt) = Response 200 body"
    using assms(3) by simp
  from call_ollama_response [where net = "network rt", OF this assms(4) e]
  have c: "fst (call_ollama (network rt) cfg prompt w) = Inr (py_strip s)" .
  from run_response [OF assms(1) assms(2) assms(3) assms(4) e] c
  show ?thesis by simp
qed

theorem fallback_on_falsy_response_witness:
  "fst (call_ollama (\<lambda>rq. Response 200 (ustr ''{\"response\": \"\", \"text\": \"hi\"}''))
      (load_config Map.empty) [] \<lparr>stdout = [], sent = []\<rparr>) = Inr (ustr ''hi'')
   \<and> printed (run (example_runtime (ustr ''{\"response\": \"\", \"text\": \"hi\"}'')) []) =
       ustr ''hi'' @ [10]"
proof -
  have k: "ustr ''response'' \<noteq> ustr ''text''" "ustr ''hi'' \<noteq> []"
    by (simp_all add: ustr_def)
  show ?thesis
    using k utf8_ascii fallback_on_falsy_response
        [where rt = "example_runtime (ustr ''{\"response\": \"\", \"text\": \"hi\"}'')"
          and raw = "[]" and kvs = "[]"
          and body = "ustr ''{\"response\": \"\", \"text\": \"hi\"}''"
          and d = "[(ustr ''response'', JStr []), (ustr ''text'', JStr (ustr ''hi''))]"
          and a = "JStr []" and s = "ustr ''hi''" and cfg = "load_config Map.empty"
          and prompt = "[]" and w = "\<lparr>stdout = [], sent = []\<rparr>"]
    by (simp add: example_runtime_simps strip_hi loads_braces loads_fallback example_runtime_def)
qed


section \<open>What dedent and strip keep of a text\<close>

lemma split_nl_nonempty: "split_nl t \<noteq> []"
  by (induction t) simp_all

lemma split_nl_prefix:
  "10 \<notin> set w \<Longrightarrow> hd (split_nl (w @ b)) = w @ hd (split_nl b)"
  by (induction w) simp_all

lemma split_nl_keeps:
  "10 \<notin> set w \<Longrightarrow> \<exists>l \<in> set (split_nl (a @ w @ b)). sublist w l"
proof (induction a)
  case Nil
  have "hd (split_nl (w @ b)) \<in> set (split_nl (w @ b))"
    using split_nl_nonempty by simp
  moreover have "sublist w (hd (split_nl (w @ b)))"
    using Nil by (simp add: split_nl_prefix)
  ultimately show ?case by auto
next
  case (Cons c a)
  let ?S = "split_nl (a @ w @ b)"
  from Cons obtain l where l: "l \<in> set ?S" "sublist w l" by blast
  have S: "?S = hd ?S # tl ?S" using split_nl_nonempty by simp
  show ?case
  proof (cases "c = 10")
    case True
    with l show ?thesis by auto
  next
    case False
    from l(1) S have "l = hd ?S \<or> l \<in> set (tl ?S)"
      by (metis set_ConsD)
    then show ?thesis
    proof
      assume "l = hd ?S"
      with l(2) have "sublist w (c # hd ?S)" by (simp add: sublist_Cons_right)
      with False show ?thesis by simp
    next
      assume "l \<in> set (tl ?S)"
      with l(2) False show ?thesis by auto
    qed
  qed
qed

lemma join_keeps: "l \<in> set ls \<Longrightarrow> sublist w l \<Longrightarrow> sublist w (join sep ls)"
proof (induction sep ls rule: join.induct)
  case (1 sep)
  then show ?case by simp
next
  case (2 sep x)
  then show ?case by simp
next
  case (3 sep x y ys)
  show ?case
  proof (cases "l = x")
    case True
    with 3(3) obtain a b where "x = a @ w @ b" by (auto simp: sublist_def)
    then have "join sep (x # y # ys) = a @ w @ (b @ sep @ join sep (y # ys))" by simp
    then show ?thesis unfolding sublist_def by blast
  next
    case False
    with 3(2) have "l \<in> set (y # ys)" by simp
    from 3(1) [OF this 3(3)] obtain a b where "join sep (y # ys) = a @ w @ b"
      by (auto simp: sublist_def)
    then have "join sep (x # y # ys) = (x @ sep @ a) @ w @ b" by simp
    then show ?thesis unfolding sublist_def by blast
  qed
qed

lemma sublist_after_blanks:
  "list_all is_blank m \<Longrightarrow> w \<noteq> [] \<Longrightarrow> \<not> is_blank (hd w) \<Longrightarrow> sublist w (m @ r) \<Longrightarrow>
   sublist w r"
proof (induction m)
  case Nil
  then show ?case by simp
next
  case (Cons c m)
  from Cons.prems(4) have "prefix w (c # m @ r) \<or> sublist w (m @ r)"
    by (simp add: sublist_Cons_right)
  moreover have "\<not> prefix w (c # m @ r)"
    using Cons.prems(1-3) by (cases w) auto
  ultimately have "sublist w (m @ r)" by simp
  with Cons show ?case by simp
qed

lemma cut_margin_keeps:
  assumes "list_all is_blank m" "w \<noteq> []" "\<not> is_blank (hd w)" "sublist w l"
  shows "sublist w (cut_margin m l)"
proof (cases "startswith l m")
  case True
  then have "l = m @ drop (length m) l"
    by (metis append_take_drop_id startswith_def)
  with assms(4) have "sublist w (m @ drop (length m) l)" by simp
  from sublist_after_blanks [OF assms(1-3) this] True
  show ?thesis by (simp add: cut_margin_def)
next
  case False
  with assms(4) show ?thesis by (simp add: cut_margin_def)
qed

lemma blank_line_keeps:
  assumes "w \<noteq> []" "\<not> is_blank (hd w)" "sublist w l"
  shows "sublist w (blank_line l)"
proof -
  have "hd w \<in> set l"
    using assms(1,3) by (metis hd_in_set set_mono_sublist subsetD)
  with assms(2) have "\<not> list_all is_blank l" by (auto simp: list_all_iff)
  with assms(3) show ?thesis by (simp add: blank_line_def)
qed

lemma margin_step_blank:
  "\<forall>m. acc = Some m \<longrightarrow> list_all is_blank m \<Longrightarrow> list_all is_blank i \<Longrightarrow>
   margin_step acc i = Some m' \<Longrightarrow> list_all is_blank m'"
  by (auto simp: margin_step_def Let_def list_all_iff split: option.splits if_splits
      dest: in_set_takeD)

lemma margin_blank:
  "\<forall>m. acc = Some m \<longrightarrow> list_all is_blank m \<Longrightarrow> \<forall>i \<in> set ins. list_all is_blank i \<Longrightarrow>
   foldl margin_step acc ins = Some m' \<Longrightarrow> list_all is_blank m'"
proof (induction ins arbitrary: acc)
  case Nil
  then show ?case by simp
next
  case (Cons i ins)
  have "\<forall>m. margin_step acc i = Some m \<longrightarrow> list_all is_blank m"
    using margin_step_blank [OF Cons.prems(1)] Cons.prems(2) by auto
  from Cons.IH [OF this] Cons.prems(2,3) show ?case by simp
qed

lemma dedent_keeps:
  assumes "w \<noteq> []" "\<not> is_blank (hd w)" "10 \<notin> set w" "sublist w t"
  shows "sublist w (dedent t)"
proof -
  let ?lines = "map blank_line (split_nl t)"
  let ?indents = "map (takeWhile is_blank) (filter (\<lambda>l. l \<noteq> []) ?lines)"
  from assms(4) obtain a b where "t = a @ w @ b" by (auto simp: sublist_def)
  with split_nl_keeps [OF assms(3)] obtain l where l: "l \<in> set (split_nl t)" "sublist w l"
    by blast
  have b: "sublist w (blank_line l)"
    using assms(1,2) l(2) by (rule blank_line_keeps)
  have in1: "blank_line l \<in> set ?lines" using l(1) by simp
  have plain: "sublist w (join [10] ?lines)"
    using in1 b by (rule join_keeps)
  have cut: "sublist w (join [10] (map (cut_margin m) ?lines))" if "list_all is_blank m" for m
  proof -
    have "cut_margin m (blank_line l) \<in> set (map (cut_margin m) ?lines)"
      using in1 by auto
    moreover have "sublist w (cut_margin m (blank_line l))"
      using that assms(1,2) b by (rule cut_margin_keeps)
    ultimately show ?thesis by (rule join_keeps)
  qed
  have ind: "\<forall>i \<in> set ?indents. list_all is_blank i"
    by (auto simp: list_all_iff dest: set_takeWhileD)
  show ?thesis
  proof (cases "foldl margin_step None ?indents")
    case None
    with plain show ?thesis by (simp add: dedent_def Let_def)
  next
    case (Some m)
    have "list_all is_blank m"
      using margin_blank [OF _ ind Some] by simp
    from cut [OF this] plain Some show ?thesis
      by (simp add: dedent_def Let_def)
  qed
qed

lemma dropWhile_keeps:
  "w \<noteq> [] \<Longrightarrow> \<not> P (hd w) \<Longrightarrow> sublist w s \<Longrightarrow> sublist w (dropWhile P s)"
proof (induction s)
  case Nil
  then show ?case by simp
next
  case (Cons c s)
  show ?case
  proof (cases "P c")
    case True
    from Cons.prems(3) have "prefix w (c # s) \<or> sublist w s"
      by (simp add: sublist_Cons_right)
    moreover have "\<not> prefix w (c # s)"
      using Cons.prems(1,2) True by (cases w) auto
    ultimately have "sublist w s" by simp
    from Cons.IH [OF Cons.prems(1,2) this] True show ?thesis by simp
  next
    case False
    with Cons.prems(3) show ?thesis by simp
  qed
qed

lemma py_strip_keeps:
  assumes "w \<noteq> []" "\<not> py_isspace (hd w)" "\<not> py_isspace (last w)" "sublist w s"
  shows "sublist w (py_strip s)"
proof -
  have "sublist w (dropWhile py_isspace s)"
    using assms(1,2,4) by (rule dropWhile_keeps)
  then have "sublist (rev w) (rev (dropWhile py_isspace s))"
    by (simp add: sublist_rev)
  moreover have "rev w \<noteq> []" "\<not> py_isspace (hd (rev w))"
    using assms(1,3) by (simp_all add: hd_rev)
  ultimately have "sublist (rev w) (dropWhile py_isspace (rev (dropWhile py_isspace s)))"
    by (simp add: dropWhile_keeps)
  then have "sublist (rev (rev w)) (rev (dropWhile py_isspace (rev (dropWhile py_isspace s))))"
    by (simp only: sublist_rev)
  then show ?thesis by (simp add: py_strip_def)
qed

lemma py_strip_ends:
  assumes "py_strip s \<noteq> []"
  shows "\<not> py_isspace (hd (py_strip s)) \<and> \<not> py_isspace (last (py_strip s))"
proof -
  let ?a = "dropWhile py_isspace s"
  let ?b = "dropWhile py_isspace (rev ?a)"
  from assms have b: "?b \<noteq> []" by (simp add: py_strip_def)
  then have a: "?a \<noteq> []" by (cases "?a = []") simp_all
  have "\<not> py_isspace (hd ?b)" using b by (rule hd_dropWhile)
  then have l: "\<not> py_isspace (last (py_strip s))"
    using b by (simp add: py_strip_def last_rev)
  have "last ?b = last (rev ?a)"
    using b by (metis takeWhile_dropWhile_id last_appendR)
  also have "\<dots> = hd ?a" using a by (simp add: last_rev)
  finally have "hd (py_strip s) = hd ?a"
    using b by (simp add: py_strip_def hd_rev)
  moreover have "\<not> py_isspace (hd ?a)" using a by (rule hd_dropWhile)
  ultimately show ?thesis using l by simp
qed

lemma blank_is_space: "is_blank c \<Longrightarrow> py_isspace c"
  by (auto simp: is_blank_def py_isspace_def)

lemma prompt_keeps:
  assumes "w \<noteq> []" "\<not> py_isspace (hd w)" "\<not> py_isspace (last w)" "10 \<notin> set w" "sublist w t"
  shows "sublist w (py_strip (dedent t))"
proof -
  have "\<not> is_blank (hd w)" using assms(2) blank_is_space by blast
  from dedent_keeps [OF assms(1) this assms(4,5)] have "sublist w (dedent t)" .
  with assms(1-3) show ?thesis by (rule py_strip_keeps)
qed


section \<open>The prompt\<close>

lemma template_cpu:
  "sublist (ustr ''CPU load: '' @ cpu) (prompt_template cpu memory services)"
proof -
  have "ustr ''        CPU load: '' @ cpu = ustr ''        '' @ (ustr ''CPU load: '' @ cpu) @ []"
    by (simp add: ustr_def)
  then have "sublist (ustr ''CPU load: '' @ cpu) (ustr ''        CPU load: '' @ cpu)"
    unfolding sublist_def by blast
  then show ?thesis
    unfolding prompt_template_def by (rule join_keeps [rotated]) simp
qed

lemma template_memory:
  "sublist (ustr ''Memory: '' @ memory) (prompt_template cpu memory services)"
proof -
  have "ustr ''        Memory: '' @ memory = ustr ''        '' @ (ustr ''Memory: '' @ memory) @ []"
    by (simp add: ustr_def)
  then have "sublist (ustr ''Memory: '' @ memory) (ustr ''        Memory: '' @ memory)"
    unfolding sublist_def by blast
  then show ?thesis
    unfolding prompt_template_def by (rule join_keeps [rotated]) simp
qed

lemma template_services:
  "sublist (ustr ''Services: '' @ services) (prompt_template cpu memory services)"
proof -
  have "ustr ''        Services: '' @ services =
        ustr ''        '' @ (ustr ''Services: '' @ services) @ []"
    by (simp add: ustr_def)
  then have "sublist (ustr ''Services: '' @ services) (ustr ''        Services: '' @ services)"
    unfolding sublist_def by blast
  then show ?thesis
    unfolding prompt_template_def by (rule join_keeps [rotated]) simp
qed

lemma sublist_of_prefix: "sublist (a @ b) t \<Longrightarrow> sublist a t"
  unfolding sublist_def by auto

lemma py_str_empty_dict: "py_str ip (JDict []) = ustr ''{}''"
  by (simp add: py_str_def ustr_def)

lemma build_prompt_value:
  "build_prompt ip (JDict kvs) = Inr (py_strip (dedent (prompt_template
      (py_str ip (case map_of kvs (ustr ''cpu_load'') of None \<Rightarrow> JDict [] | Some v \<Rightarrow> v))
      (py_str ip (case map_of kvs (ustr ''memory'') of None \<Rightarrow> JDict [] | Some v \<Rightarrow> v))
      (py_str ip (case map_of kvs (ustr ''services'') of None \<Rightarrow> JDict [] | Some v \<Rightarrow> v)))))"
  by (simp add: build_prompt_def py_get_def split: option.splits)

lemma label_ok:
  "ustr ''CPU load:'' \<noteq> [] \<and> \<not> py_isspace (hd (ustr ''CPU load:''))
     \<and> \<not> py_isspace (last (ustr ''CPU load:'')) \<and> 10 \<notin> set (ustr ''CPU load:'')"
  "ustr ''Memory:'' \<noteq> [] \<and> \<not> py_isspace (hd (ustr ''Memory:''))
     \<and> \<not> py_isspace (last (ustr ''Memory:'')) \<and> 10 \<notin> set (ustr ''Memory:'')"
  "ustr ''Services:'' \<noteq> [] \<and> \<not> py_isspace (hd (ustr ''Services:''))
     \<and> \<not> py_isspace (last (ustr ''Services:'')) \<and> 10 \<notin> set (ustr ''Services:'')"
  "ustr ''CPU load: {}'' \<noteq> [] \<and> \<not> py_isspace (hd (ustr ''CPU load: {}''))
     \<and> \<not> py_isspace (last (ustr ''CPU load: {}'')) \<and> 10 \<notin> set (ustr ''CPU load: {}'')"
  "ustr ''Memory: {}'' \<noteq> [] \<and> \<not> py_isspace (hd (ustr ''Memory: {}''))
     \<and> \<not> py_isspace (last (ustr ''Memory: {}'')) \<and> 10 \<notin> set (ustr ''Memory: {}'')"
  "ustr ''Services: {}'' \<noteq> [] \<and> \<not> py_isspace (hd (ustr ''Services: {}''))
     \<and> \<not> py_isspace (last (ustr ''Services: {}'')) \<and> 10 \<notin> set (ustr ''Services: {}'')"
  by (simp_all add: ustr_def py_isspace_def)

lemma label_split:
  "ustr ''CPU load: '' = ustr ''CPU load:'' @ [32]"
  "ustr ''Memory: '' = ustr ''Memory:'' @ [32]"
  "ustr ''Services: '' = ustr ''Services:'' @ [32]"
  "ustr ''CPU load: '' @ ustr ''{}'' = ustr ''CPU load: {}''"
  "ustr ''Memory: '' @ ustr ''{}'' = ustr ''Memory: {}''"
  "ustr ''Services: '' @ ustr ''{}'' = ustr ''Services: {}''"
  by (simp_all add: ustr_def)

text \<open>
  C4: for every dict, \<open>build_prompt\<close> returns, and what it returns is a string that is not
  empty, contains \<open>CPU load:\<close>, \<open>Memory:\<close> and \<open>Services:\<close>, and neither starts nor ends
  with whitespace. A key among \<open>cpu_load\<close>, \<open>memory\<close> and \<open>services\<close> that the dict does not
  have is rendered as the empty dict: the prompt then contains \<open>CPU load: {}\<close>,
  \<open>Memory: {}\<close> or \<open>Services: {}\<close>.
\<close>

theorem build_prompt_succeeds:
  "\<exists>p. build_prompt ip (JDict kvs) = Inr p \<and> p \<noteq> []
     \<and> sublist (ustr ''CPU load:'') p \<and> sublist (ustr ''Memory:'') p
     \<and> sublist (ustr ''Services:'') p
     \<and> \<not> py_isspace (hd p) \<and> \<not> py_isspace (last p)
     \<and> (map_of kvs (ustr ''cpu_load'') = None \<longrightarrow> sublist (ustr ''CPU load: {}'') p)
     \<and> (map_of kvs (ustr ''memory'') = None \<longrightarrow> sublist (ustr ''Memory: {}'') p)
     \<and> (map_of kvs (ustr ''services'') = None \<longrightarrow> sublist (ustr ''Services: {}'') p)"
proof -
  let ?c = "py_str ip (case map_of kvs (ustr ''cpu_load'') of None \<Rightarrow> JDict [] | Some v \<Rightarrow> v)"
  let ?m = "py_str ip (case map_of kvs (ustr ''memory'') of None \<Rightarrow> JDict [] | Some v \<Rightarrow> v)"
  let ?s = "py_str ip (case map_of kvs (ustr ''services'') of None \<Rightarrow> JDict [] | Some v \<Rightarrow> v)"
  let ?t = "prompt_template ?c ?m ?s"
  let ?p = "py_strip (dedent ?t)"
  have bp: "build_prompt ip (JDict kvs) = Inr ?p"
    by (rule build_prompt_value)
  have keep: "sublist w ?p"
    if "w \<noteq> [] \<and> \<not> py_isspace (hd w) \<and> \<not> py_isspace (last w) \<and> 10 \<notin> set w" "sublist w ?t"
    for w
    using that by (simp add: prompt_keeps)
  have tc: "sublist (ustr ''CPU load: '' @ ?c) ?t" by (rule template_cpu)
  have tm: "sublist (ustr ''Memory: '' @ ?m) ?t" by (rule template_memory)
  have ts: "sublist (ustr ''Services: '' @ ?s) ?t" by (rule template_services)
  have c: "sublist (ustr ''CPU load:'') ?p"
    using tc by (intro keep label_ok) (simp add: label_split(1) sublist_of_prefix)
  have m: "sublist (ustr ''Memory:'') ?p"
    using tm by (intro keep label_ok) (simp add: label_split(2) sublist_of_prefix)
  have s: "sublist (ustr ''Services:'') ?p"
    using ts by (intro keep label_ok) (simp add: label_split(3) sublist_of_prefix)
  have ne: "?p \<noteq> []"
  proof
    assume "?p = []"
    with c have "ustr ''CPU load:'' = []" by simp
    then show False by (simp add: ustr_def)
  qed
  have ends: "\<not> py_isspace (hd ?p) \<and> \<not> py_isspace (last ?p)"
    using ne by (rule py_strip_ends)
  have ac: "sublist (ustr ''CPU load: {}'') ?p" if "map_of kvs (ustr ''cpu_load'') = None"
    using tc that by (intro keep label_ok) (simp add: py_str_empty_dict label_split(4))
  have am: "sublist (ustr ''Memory: {}'') ?p" if "map_of kvs (ustr ''memory'') = None"
    using tm that by (intro keep label_ok) (simp add: py_str_empty_dict label_split(5))
  have asv: "sublist (ustr ''Services: {}'') ?p" if "map_of kvs (ustr ''services'') = None"
    using ts that by (intro keep label_ok) (simp add: py_str_empty_dict label_split(6))
  show ?thesis
  proof (intro exI [of _ ?p] conjI impI)
    show "build_prompt ip (JDict kvs) = Inr ?p" by (rule bp)
    show "?p \<noteq> []" by (rule ne)
    show "sublist (ustr ''CPU load:'') ?p" by (rule c)
    show "sublist (ustr ''Memory:'') ?p" by (rule m)
    show "sublist (ustr ''Services:'') ?p" by (rule s)
    show "\<not> py_isspace (hd ?p)" using ends by (rule conjunct1)
    show "\<not> py_isspace (last ?p)" using ends by (rule conjunct2)
    show "sublist (ustr ''CPU load: {}'') ?p" if "map_of kvs (ustr ''cpu_load'') = None"
      using that by (rule ac)
    show "sublist (ustr ''Memory: {}'') ?p" if "map_of kvs (ustr ''memory'') = None"
      using that by (rule am)
    show "sublist (ustr ''Services: {}'') ?p" if "map_of kvs (ustr ''services'') = None"
      using that by (rule asv)
  qed
qed

theorem build_prompt_succeeds_witness:
  "\<exists>p. build_prompt example_interp (JDict []) = Inr p \<and> p \<noteq> []
     \<and> \<not> py_isspace (hd p) \<and> \<not> py_isspace (last p)
     \<and> sublist (ustr ''CPU load: {}'') p \<and> sublist (ustr ''Memory: {}'') p
     \<and> sublist (ustr ''Services: {}'') p"
  using build_prompt_succeeds [of example_interp "[]"] by auto

end
